theory Spec2Isabelle
  imports Main "HOL-Library.Sublist"
begin

section \<open>The deployment topology of menbee-cdk\<close>

text \<open>
  The repository declares one cloud topology with an infrastructure-as-code SDK. Its
  sources are the entry point \<^verbatim>\<open>bin/cdk.ts\<close> and two versions of the stack class
  \<^verbatim>\<open>DockerImageDeploymentStack\<close>: one that terminates HTTPS at the load balancer and
  wires the container to a secret store, and one that listens on HTTP only and has no
  secrets. Both constructors are straight-line code: they create resources from literals
  and mutate some of them afterwards (\<^verbatim>\<open>addIngressRule\<close>, \<^verbatim>\<open>addCommands\<close>,
  \<^verbatim>\<open>addTargets\<close>). The embedding keeps that shape: every resource is a record holding
  the properties the source passes, every mutating call is a function returning the
  updated record, and a constructor is a sequence of bindings that ends in the record of
  the resources it has built. A resource that another one refers to and that is mutated
  later (a security group) is referred to by its construct id. Fields keep the names of
  the source's properties; a name that several kinds of object share (\<^verbatim>\<open>port\<close>,
  \<^verbatim>\<open>protocol\<close>, \<^verbatim>\<open>interval\<close>, \<^verbatim>\<open>timeout\<close>, \<^verbatim>\<open>healthCheck\<close>) is prefixed
  in all but one of them.

  The calls go into the SDK, whose code is not in the repository. Of what the SDK does
  inside them the embedding has the part that decides which ports a stack opens to any
  address: a security group keeps one rule for a peer and a port range, and a listener
  lets any IPv4 address reach its port unless its \<^verbatim>\<open>open\<close> property is false. The
  image deployment, the log group and log driver, the machine image, the capacity
  provider, the placement strategy and the task role with its policy statements are left
  out: no property below reads them.
\<close>

subsection \<open>Values of the SDK\<close>

datatype Duration = Seconds nat | Minutes nat

fun toSeconds :: "Duration \<Rightarrow> nat" where
  "toSeconds (Seconds n) = n"
| "toSeconds (Minutes n) = 60 * n"

datatype RemovalPolicy = RETAIN | DESTROY

datatype Peer = AnyIpv4 | SecurityGroupPeer string

datatype Port = Tcp nat | TcpRange nat nat

datatype ApplicationProtocol = App_HTTP | App_HTTPS

datatype HealthCheckProtocol = Protocol_HTTP | Protocol_HTTPS

datatype ContainerProtocol = TCP | UDP

datatype NetworkMode = NONE | BRIDGE | AWS_VPC | HOST

datatype ListenerAction = Redirect string string

datatype ISecret = FromSecretNameV2 string string

datatype EcsSecret = FromSecretsManager ISecret string

datatype OutputValue = LoadBalancerDnsName | Literal string

subsection \<open>Stack properties\<close>

record Environment =
  account :: "string option"
  region :: "string option"

record DockerImageDeploymentStackProps =
  domainName :: string
  env :: "Environment option"

subsection \<open>Security groups\<close>

record IngressRule =
  peer :: Peer
  connection :: Port
  description :: string

record SecurityGroup =
  sgId :: string
  allowAllOutbound :: bool
  ingressRules :: "IngressRule list"

definition newSecurityGroup :: "string \<Rightarrow> bool \<Rightarrow> SecurityGroup" where
  "newSecurityGroup cid out = \<lparr>sgId = cid, allowAllOutbound = out, ingressRules = []\<rparr>"

text \<open>
  \<^verbatim>\<open>addIngressRule\<close> appends the rule, unless the group already has a rule for that peer
  and that port range: the SDK compares rules without their descriptions and keeps the
  first.
\<close>

definition addIngressRule :: "SecurityGroup \<Rightarrow> Peer \<Rightarrow> Port \<Rightarrow> string \<Rightarrow> SecurityGroup" where
  "addIngressRule sg p c d =
     (if list_ex (\<lambda>r. peer r = p \<and> connection r = c) (ingressRules sg) then sg
      else sg\<lparr>ingressRules := ingressRules sg @ [\<lparr>peer = p, connection = c, description = d\<rparr>]\<rparr>)"

subsection \<open>Compute hosts\<close>

definition forLinux :: "string list" where
  "forLinux = []"

definition addCommands :: "string list \<Rightarrow> string list \<Rightarrow> string list" where
  "addCommands userData commands = userData @ commands"

record AutoScalingGroup =
  instanceType :: string
  asgUserData :: "string list"
  minCapacity :: nat
  maxCapacity :: nat
  desiredCapacity :: nat
  securityGroup :: string

subsection \<open>Load balancer, listeners and target groups\<close>

record HealthCheck =
  path :: string
  interval :: Duration
  timeout :: Duration
  healthyThresholdCount :: nat
  unhealthyThresholdCount :: nat
  hcPort :: string
  hcProtocol :: HealthCheckProtocol

record TargetGroup =
  tgId :: string
  tgPort :: nat
  tgProtocol :: ApplicationProtocol
  targets :: "string list"
  healthCheck :: HealthCheck
  deregistrationDelay :: Duration

record Listener =
  listenerId :: string
  listenerPort :: nat
  listenerProtocol :: "ApplicationProtocol option"
  certificates :: "string list"
  defaultAction :: "ListenerAction option"
  "open" :: "bool option"
  targetGroups :: "TargetGroup list"

record ApplicationLoadBalancer =
  internetFacing :: bool
  loadBalancerName :: string
  albSecurityGroupId :: string

text \<open>
  A number in a template literal: its decimal digits.
\<close>

function decimal :: "nat \<Rightarrow> string" where
  "decimal n =
     (if n < 10 then [''0123456789'' ! n]
      else decimal (n div 10) @ [''0123456789'' ! (n mod 10)])"
  by pat_completeness auto
termination
  by (relation "measure id") auto

declare decimal.simps [simp del]

text \<open>
  \<^verbatim>\<open>alb.addListener\<close> returns the listener and changes the security group of the load
  balancer: the SDK's default for \<^verbatim>\<open>open\<close> is true, and unless the property is false it
  adds the rule that admits any IPv4 address on the listener's port, described as
  \<^verbatim>\<open>Allow from anyone on port\<close> and the port. The first argument is that security
  group.
\<close>

definition addListener :: "SecurityGroup \<Rightarrow> Listener \<Rightarrow> Listener \<times> SecurityGroup" where
  "addListener albSg l =
     (l, if open l = Some False then albSg
         else addIngressRule albSg AnyIpv4 (Tcp (listenerPort l))
                (''Allow from anyone on port '' @ decimal (listenerPort l)))"

definition addTargets :: "Listener \<Rightarrow> TargetGroup \<Rightarrow> Listener" where
  "addTargets l tg = l\<lparr>targetGroups := targetGroups l @ [tg]\<rparr>"

subsection \<open>Task definition, container and service\<close>

record Repository =
  repositoryName :: string
  removalPolicy :: RemovalPolicy

record PortMapping =
  containerPort :: nat
  hostPort :: nat
  protocol :: ContainerProtocol

record ContainerHealthCheck =
  command :: "string list"
  probeInterval :: Duration
  probeTimeout :: Duration
  retries :: nat
  startPeriod :: Duration

record ContainerDefinition =
  containerName :: string
  image :: "string \<times> string"
  memoryReservationMiB :: nat
  memoryLimitMiB :: nat
  cpu :: nat
  portMappings :: "PortMapping list"
  essential :: bool
  startTimeout :: Duration
  stopTimeout :: Duration
  environment :: "(string \<times> string) list"
  secrets :: "(string \<times> EcsSecret) list option"
  containerHealthCheck :: "ContainerHealthCheck option"

record TaskDefinition =
  family :: string
  networkMode :: NetworkMode
  containers :: "ContainerDefinition list"

definition addContainer :: "TaskDefinition \<Rightarrow> ContainerDefinition \<Rightarrow> TaskDefinition" where
  "addContainer td c = td\<lparr>containers := containers td @ [c]\<rparr>"

record Ec2Service =
  serviceName :: string
  taskDefinition :: TaskDefinition
  desiredCount :: nat
  enableExecuteCommand :: bool

subsection \<open>The stack\<close>

record Stack =
  stackId :: string
  stackEnv :: "Environment option"
  repository :: Repository
  vpcMaxAzs :: nat
  clusterName :: string
  ec2SecurityGroup :: SecurityGroup
  autoScalingGroup :: AutoScalingGroup
  certificate :: "string option"
  albSecurityGroup :: SecurityGroup
  alb :: ApplicationLoadBalancer
  listeners :: "Listener list"
  serviceSecurityGroup :: SecurityGroup
  appSecrets :: "ISecret option"
  service :: Ec2Service
  outputs :: "(string \<times> OutputValue) list"

text \<open>
  The constructor of the version with the HTTPS listener, the certificate and the
  secret-backed environment. The bindings follow the source top to bottom; a name bound
  twice is the source mutating that object.
\<close>

definition DockerImageDeploymentStack_https ::
  "string \<Rightarrow> DockerImageDeploymentStackProps \<Rightarrow> Stack" where
  \<open>DockerImageDeploymentStack_https cid props =
    (let domainName = domainName props;
         repository = \<lparr>repositoryName = ''nextjs-app'', removalPolicy = RETAIN\<rparr>;
         ec2SecurityGroup = newSecurityGroup ''Ec2SecurityGroup'' True;
         ec2SecurityGroup = addIngressRule ec2SecurityGroup AnyIpv4 (Tcp 22) ''Allow SSH access'';
         userData = forLinux;
         userData = addCommands userData
           [''echo "ec2-user:your-password-here" | chpasswd'',
            ''sed -i "s/PasswordAuthentication no/PasswordAuthentication yes/g" /etc/ssh/sshd_config'',
            ''systemctl restart sshd'',
            ''echo ECS_CLUSTER=nextjs-cluster >> /etc/ecs/ecs.config''];
         autoScalingGroup =
           \<lparr>instanceType = ''t3.micro'', asgUserData = userData, minCapacity = 1,
            maxCapacity = 1, desiredCapacity = 1, securityGroup = sgId ec2SecurityGroup\<rparr>;
         certificate = domainName;
         albSecurityGroup = newSecurityGroup ''AlbSecurityGroup'' True;
         albSecurityGroup = addIngressRule albSecurityGroup AnyIpv4 (Tcp 443)
           ''Allow HTTPS traffic from Cloudflare'';
         alb = \<lparr>internetFacing = True, loadBalancerName = ''nextjs-alb'',
                albSecurityGroupId = sgId albSecurityGroup\<rparr>;
         (httpsListener, albSecurityGroup) = addListener albSecurityGroup
           \<lparr>listenerId = ''HttpsListener'', listenerPort = 443,
            listenerProtocol = Some App_HTTPS, certificates = [certificate],
            defaultAction = None, open = None, targetGroups = []\<rparr>;
         (httpListener, albSecurityGroup) = addListener albSecurityGroup
           \<lparr>listenerId = ''HttpListener'', listenerPort = 80,
            listenerProtocol = None, certificates = [],
            defaultAction = Some (Redirect ''HTTPS'' ''443''), open = None,
            targetGroups = []\<rparr>;
         serviceSecurityGroup = newSecurityGroup ''ServiceSecurityGroup'' True;
         serviceSecurityGroup = addIngressRule serviceSecurityGroup
           (SecurityGroupPeer (sgId albSecurityGroup)) (Tcp 3000) ''Allow traffic from ALB'';
         ec2SecurityGroup = addIngressRule ec2SecurityGroup
           (SecurityGroupPeer (sgId albSecurityGroup)) (Tcp 3000)
           ''Allow traffic from ALB to container port 3000'';
         ec2SecurityGroup = addIngressRule ec2SecurityGroup
           (SecurityGroupPeer (sgId albSecurityGroup)) (TcpRange 32768 65535)
           ''Allow traffic from ALB to dynamic ports'';
         appSecrets = FromSecretNameV2 ''AppSecrets'' ''nextjs-app/env'';
         taskDefinition =
           \<lparr>family = ''nextjs-task-family'', networkMode = BRIDGE, containers = []\<rparr>;
         taskDefinition = addContainer taskDefinition
           \<lparr>containerName = ''nextjs-container'',
            image = (repositoryName repository, ''latest''),
            memoryReservationMiB = 200,
            memoryLimitMiB = 800,
            cpu = 128,
            portMappings = [\<lparr>containerPort = 3000, hostPort = 0, protocol = TCP\<rparr>],
            essential = True,
            startTimeout = Minutes 10,
            stopTimeout = Minutes 2,
            environment =
              [(''NODE_ENV'', ''production''),
               (''PORT'', ''3000''),
               (''HOSTNAME'', ''0.0.0.0''),
               (''NEXT_TELEMETRY_DISABLED'', ''1'')],
            secrets = Some
              [(''AUTH_SECRET'', FromSecretsManager appSecrets ''AUTH_SECRET''),
               (''NEXTAUTH_URL'', FromSecretsManager appSecrets ''NEXTAUTH_URL''),
               (''AUTH_GOOGLE_ID'', FromSecretsManager appSecrets ''AUTH_GOOGLE_ID''),
               (''AUTH_GOOGLE_SECRET'', FromSecretsManager appSecrets ''AUTH_GOOGLE_SECRET''),
               (''DATABASE_URL'', FromSecretsManager appSecrets ''DATABASE_URL''),
               (''AUTH_TRUST_HOST'', FromSecretsManager appSecrets ''AUTH_TRUST_HOST'')],
            containerHealthCheck = Some
              \<lparr>command = [''CMD-SHELL'', ''exit 0''],
               probeInterval = Seconds 30,
               probeTimeout = Seconds 5,
               retries = 3,
               startPeriod = Seconds 60\<rparr>\<rparr>;
         service =
           \<lparr>serviceName = ''nextjs-service'', taskDefinition = taskDefinition,
            desiredCount = 1, enableExecuteCommand = True\<rparr>;
         httpsListener = addTargets httpsListener
           \<lparr>tgId = ''EcsTargetGroup'',
            tgPort = 80,
            tgProtocol = App_HTTP,
            targets = [serviceName service],
            healthCheck =
              \<lparr>path = ''/'',
               interval = Seconds 120,
               timeout = Seconds 60,
               healthyThresholdCount = 2,
               unhealthyThresholdCount = 10,
               hcPort = ''traffic-port'',
               hcProtocol = Protocol_HTTP\<rparr>,
            deregistrationDelay = Seconds 300\<rparr>
     in \<lparr>stackId = cid,
         stackEnv = env props,
         repository = repository,
         vpcMaxAzs = 1,
         clusterName = ''nextjs-cluster'',
         ec2SecurityGroup = ec2SecurityGroup,
         autoScalingGroup = autoScalingGroup,
         certificate = Some certificate,
         albSecurityGroup = albSecurityGroup,
         alb = alb,
         listeners = [httpsListener, httpListener],
         serviceSecurityGroup = serviceSecurityGroup,
         appSecrets = Some appSecrets,
         service = service,
         outputs =
           [(''LoadBalancerDNS'', LoadBalancerDnsName),
            (''DomainName'', Literal (''https://'' @ domainName))]\<rparr>)\<close>

text \<open>
  The constructor of the version behind an HTTPS-terminating proxy: no certificate, one
  HTTP listener, no secrets.
\<close>

definition DockerImageDeploymentStack_http ::
  "string \<Rightarrow> DockerImageDeploymentStackProps \<Rightarrow> Stack" where
  \<open>DockerImageDeploymentStack_http cid props =
    (let domainName = domainName props;
         repository = \<lparr>repositoryName = ''nextjs-app'', removalPolicy = RETAIN\<rparr>;
         ec2SecurityGroup = newSecurityGroup ''Ec2SecurityGroup'' True;
         ec2SecurityGroup = addIngressRule ec2SecurityGroup AnyIpv4 (Tcp 22) ''Allow SSH access'';
         userData = forLinux;
         userData = addCommands userData
           [''echo "ec2-user:your-password-here" | chpasswd'',
            ''sed -i "s/PasswordAuthentication no/PasswordAuthentication yes/g" /etc/ssh/sshd_config'',
            ''systemctl restart sshd'',
            ''echo ECS_CLUSTER=nextjs-cluster >> /etc/ecs/ecs.config''];
         autoScalingGroup =
           \<lparr>instanceType = ''t3.micro'', asgUserData = userData, minCapacity = 1,
            maxCapacity = 1, desiredCapacity = 1, securityGroup = sgId ec2SecurityGroup\<rparr>;
         albSecurityGroup = newSecurityGroup ''AlbSecurityGroup'' True;
         albSecurityGroup = addIngressRule albSecurityGroup AnyIpv4 (Tcp 80)
           ''Allow HTTP traffic from Cloudflare'';
         alb = \<lparr>internetFacing = True, loadBalancerName = ''nextjs-alb'',
                albSecurityGroupId = sgId albSecurityGroup\<rparr>;
         (httpListener, albSecurityGroup) = addListener albSecurityGroup
           \<lparr>listenerId = ''HttpListener'', listenerPort = 80,
            listenerProtocol = None, certificates = [],
            defaultAction = None, open = Some True, targetGroups = []\<rparr>;
         serviceSecurityGroup = newSecurityGroup ''ServiceSecurityGroup'' True;
         serviceSecurityGroup = addIngressRule serviceSecurityGroup
           (SecurityGroupPeer (sgId albSecurityGroup)) (Tcp 3000) ''Allow traffic from ALB'';
         ec2SecurityGroup = addIngressRule ec2SecurityGroup
           (SecurityGroupPeer (sgId albSecurityGroup)) (Tcp 3000)
           ''Allow traffic from ALB to container port 3000'';
         ec2SecurityGroup = addIngressRule ec2SecurityGroup
           (SecurityGroupPeer (sgId albSecurityGroup)) (TcpRange 32768 65535)
           ''Allow traffic from ALB to dynamic ports'';
         taskDefinition =
           \<lparr>family = ''nextjs-task-family'', networkMode = BRIDGE, containers = []\<rparr>;
         taskDefinition = addContainer taskDefinition
           \<lparr>containerName = ''nextjs-container'',
            image = (repositoryName repository, ''latest''),
            memoryReservationMiB = 200,
            memoryLimitMiB = 800,
            cpu = 128,
            portMappings = [\<lparr>containerPort = 3000, hostPort = 0, protocol = TCP\<rparr>],
            essential = True,
            startTimeout = Minutes 10,
            stopTimeout = Minutes 2,
            environment =
              [(''NODE_ENV'', ''production''),
               (''PORT'', ''3000''),
               (''HOSTNAME'', ''0.0.0.0''),
               (''NEXT_TELEMETRY_DISABLED'', ''1'')],
            secrets = None,
            containerHealthCheck = Some
              \<lparr>command = [''CMD-SHELL'', ''exit 0''],
               probeInterval = Seconds 30,
               probeTimeout = Seconds 5,
               retries = 3,
               startPeriod = Seconds 60\<rparr>\<rparr>;
         service =
           \<lparr>serviceName = ''nextjs-service'', taskDefinition = taskDefinition,
            desiredCount = 1, enableExecuteCommand = True\<rparr>;
         httpListener = addTargets httpListener
           \<lparr>tgId = ''EcsTargetGroup'',
            tgPort = 80,
            tgProtocol = App_HTTP,
            targets = [serviceName service],
            healthCheck =
              \<lparr>path = ''/'',
               interval = Seconds 120,
               timeout = Seconds 60,
               healthyThresholdCount = 2,
               unhealthyThresholdCount = 10,
               hcPort = ''traffic-port'',
               hcProtocol = Protocol_HTTP\<rparr>,
            deregistrationDelay = Seconds 300\<rparr>
     in \<lparr>stackId = cid,
         stackEnv = env props,
         repository = repository,
         vpcMaxAzs = 2,
         clusterName = ''nextjs-cluster'',
         ec2SecurityGroup = ec2SecurityGroup,
         autoScalingGroup = autoScalingGroup,
         certificate = None,
         albSecurityGroup = albSecurityGroup,
         alb = alb,
         listeners = [httpListener],
         serviceSecurityGroup = serviceSecurityGroup,
         appSecrets = None,
         service = service,
         outputs =
           [(''LoadBalancerDNS'', LoadBalancerDnsName),
            (''DomainName'', Literal (''https://'' @ domainName))]\<rparr>)\<close>

subsection \<open>The entry point\<close>

text \<open>
  \<^verbatim>\<open>a || b\<close> on a value that is a string or undefined: the left operand unless it is
  undefined or the empty string.
\<close>

definition or_default :: "string option \<Rightarrow> string \<Rightarrow> string" where
  "or_default a b = (case a of None \<Rightarrow> b | Some s \<Rightarrow> if s = [] then b else s)"

text \<open>
  \<^verbatim>\<open>bin/cdk.ts\<close>: the application is the list of the stacks instantiated under it. The
  stack class it imports is a parameter, since either version of the class fits the
  import; \<open>process_env\<close> is the process environment.
\<close>

definition cdk ::
  "(string \<Rightarrow> DockerImageDeploymentStackProps \<Rightarrow> 'stack) \<Rightarrow> (string \<Rightarrow> string option) \<Rightarrow> 'stack list" where
  "cdk DockerImageDeploymentStack process_env =
    (let app = [];
         app = app @
           [DockerImageDeploymentStack ''MenbeeSchedulerStack''
              \<lparr>domainName = ''menbee-scheduler.com'',
               env = Some
                 \<lparr>account = process_env ''CDK_DEFAULT_ACCOUNT'',
                  region = Some (or_default (process_env ''CDK_DEFAULT_REGION'')
                                   ''ap-northeast-1'')\<rparr>\<rparr>]
     in app)"

subsection \<open>Reading a constructed stack\<close>

definition securityGroups :: "Stack \<Rightarrow> SecurityGroup list" where
  "securityGroups s = [ec2SecurityGroup s, albSecurityGroup s, serviceSecurityGroup s]"

fun covers :: "Port \<Rightarrow> nat \<Rightarrow> bool" where
  "covers (Tcp p) q = (q = p)"
| "covers (TcpRange lo hi) q = (lo \<le> q \<and> q \<le> hi)"

definition connectionsFrom :: "SecurityGroup \<Rightarrow> Peer \<Rightarrow> Port list" where
  "connectionsFrom sg who = map connection (filter (\<lambda>r. peer r = who) (ingressRules sg))"

definition admitsPublic :: "Stack \<Rightarrow> nat \<Rightarrow> bool" where
  "admitsPublic s q =
     list_ex (\<lambda>sg. list_ex (\<lambda>c. covers c q) (connectionsFrom sg AnyIpv4)) (securityGroups s)"

definition stackContainers :: "Stack \<Rightarrow> ContainerDefinition list" where
  "stackContainers s = containers (taskDefinition (service s))"

definition stackTargetGroups :: "Stack \<Rightarrow> TargetGroup list" where
  "stackTargetGroups s = concat (map targetGroups (listeners s))"

definition targetGroupChecks :: "Stack \<Rightarrow> HealthCheck list" where
  "targetGroupChecks s = map healthCheck (stackTargetGroups s)"

definition containerChecks :: "Stack \<Rightarrow> ContainerHealthCheck list" where
  "containerChecks s = List.map_filter containerHealthCheck (stackContainers s)"

definition secretEntries :: "Stack \<Rightarrow> (string \<times> EcsSecret) list" where
  "secretEntries s =
     concat (map (\<lambda>c. case secrets c of None \<Rightarrow> [] | Some kv \<Rightarrow> kv) (stackContainers s))"

text \<open>
  The health-check policy of the data model, read off either kind of health-check block:
  interval and timeout in seconds and the number of consecutive failures that makes the
  target unhealthy (\<open>unhealthyThresholdCount\<close> at the load balancer, \<open>retries\<close> at
  the container).
\<close>

definition healthCheckPolicies :: "Stack \<Rightarrow> (nat \<times> nat \<times> nat) list" where
  "healthCheckPolicies s =
     map (\<lambda>h. (toSeconds (interval h), toSeconds (timeout h), unhealthyThresholdCount h))
       (targetGroupChecks s) @
     map (\<lambda>h. (toSeconds (probeInterval h), toSeconds (probeTimeout h), retries h))
       (containerChecks s)"

fun policyInvariant :: "nat \<times> nat \<times> nat \<Rightarrow> bool" where
  "policyInvariant (interval_s, timeout_s, unhealthy) = (timeout_s < interval_s \<and> 1 \<le> unhealthy)"

subsection \<open>The eligibility state machine\<close>

text \<open>
  Modelled from the spec: the health-check policy evaluator of the spec's component
  design. The repository has no code for it; the probes are sent and counted by the load
  balancer, and the stack only hands it the thresholds of \<open>HealthCheck\<close>. The spec gives
  three states, the initial state \<open>UNKNOWN\<close>, and three transitions: to \<open>HEALTHY\<close>
  from \<open>UNKNOWN\<close> or \<open>UNHEALTHY\<close> after \<open>healthyThresholdCount\<close> consecutive passing
  probes, to \<open>UNHEALTHY\<close> from \<open>HEALTHY\<close> after \<open>unhealthyThresholdCount\<close>
  consecutive failing probes. A target is a state with the length of the current run of
  probes that count towards leaving it; a probe of the other kind ends the run.
\<close>

datatype Eligibility = UNKNOWN | HEALTHY | UNHEALTHY

datatype Probe = Pass | Fail

text \<open>
  Modelled from the spec: one probe. The three transitions of the spec are the two
  branches that reach a threshold; every other probe extends the current run or ends it.
  The repository has no code for this step.
\<close>

fun transition :: "HealthCheck \<Rightarrow> Eligibility \<times> nat \<Rightarrow> Probe \<Rightarrow> Eligibility \<times> nat" where
  "transition hc (HEALTHY, k) Fail =
     (if unhealthyThresholdCount hc \<le> Suc k then (UNHEALTHY, 0) else (HEALTHY, Suc k))"
| "transition hc (HEALTHY, k) Pass = (HEALTHY, 0)"
| "transition hc (s, k) Pass =
     (if healthyThresholdCount hc \<le> Suc k then (HEALTHY, 0) else (s, Suc k))"
| "transition hc (s, k) Fail = (s, 0)"

text \<open>
  Modelled from the spec: the evaluator over a sequence of probes, oldest first, and the
  initial state of a target. The repository has no code for either.
\<close>

definition evaluate :: "HealthCheck \<Rightarrow> Eligibility \<times> nat \<Rightarrow> Probe list \<Rightarrow> Eligibility \<times> nat" where
  "evaluate hc st probes = foldl (transition hc) st probes"

definition initial :: "Eligibility \<times> nat" where
  "initial = (UNKNOWN, 0)"

subsection \<open>The container-level probe\<close>

text \<open>
  What the container runtime makes of a health-check command, as far as the stack needs
  it: a \<^verbatim>\<open>CMD-SHELL\<close> command runs its line in a shell, the probe passes when the exit
  status is 0, and the line \<^verbatim>\<open>exit n\<close> ends the shell with status \<open>n\<close> whatever the
  application does. This is the runtime's convention, not code of the repository; no
  other command line is interpreted (\<open>None\<close>).
\<close>

definition shellExitStatus :: "string \<Rightarrow> nat option" where
  "shellExitStatus line =
     (if take 5 line = ''exit '' \<and> drop 5 line \<noteq> [] \<and>
         list_all (\<lambda>c. c \<in> set ''0123456789'') (drop 5 line)
      then Some (foldl (\<lambda>n c. 10 * n + (of_char c - 48)) 0 (drop 5 line))
      else None)"

fun containerProbe :: "string list \<Rightarrow> 'app \<Rightarrow> Probe option" where
  "containerProbe [sh, line] app =
     (if sh = ''CMD-SHELL''
      then map_option (\<lambda>n. if n = 0 then Pass else Fail) (shellExitStatus line)
      else None)"
| "containerProbe cmd app = None"

section \<open>Properties\<close>

subsection \<open>Unfolding a constructor\<close>

lemmas stack_defs =
  DockerImageDeploymentStack_https_def DockerImageDeploymentStack_http_def
  newSecurityGroup_def addIngressRule_def addListener_def forLinux_def addCommands_def
  addTargets_def addContainer_def Let_def

lemmas read_defs =
  securityGroups_def connectionsFrom_def admitsPublic_def stackContainers_def
  stackTargetGroups_def targetGroupChecks_def containerChecks_def secretEntries_def
  healthCheckPolicies_def

lemma decimal_ports: "decimal 80 = ''80'' \<and> decimal 443 = ''443''"
  by (simp add: decimal.simps)

lemma load_balancer_rules:
  "ingressRules (albSecurityGroup (DockerImageDeploymentStack_https cid props)) =
     [\<lparr>peer = AnyIpv4, connection = Tcp 443,
       description = ''Allow HTTPS traffic from Cloudflare''\<rparr>,
      \<lparr>peer = AnyIpv4, connection = Tcp 80, description = ''Allow from anyone on port 80''\<rparr>] \<and>
   ingressRules (albSecurityGroup (DockerImageDeploymentStack_http cid props)) =
     [\<lparr>peer = AnyIpv4, connection = Tcp 80,
       description = ''Allow HTTP traffic from Cloudflare''\<rparr>]"
  by (simp add: stack_defs decimal_ports)

subsection \<open>Runs of probes\<close>

text \<open>
  A sequence of probes holds \<open>n\<close> consecutive probes of one kind when \<open>replicate n x\<close>
  is a contiguous sublist of it.
\<close>

lemma sublist_under: "sublist r ps \<Longrightarrow> sublist r (xs @ ps)"
  by (metis sublist_append_leftI sublist_order.order_trans)

lemma sublist_after_probe: "sublist r ps \<Longrightarrow> sublist r (replicate k x @ p # ps)"
  using sublist_under [of r ps "replicate k x @ [p]"] by simp

lemma run_reaches_threshold:
  assumes "n \<le> Suc k"
  shows "sublist (replicate n x) (replicate k x @ x # ps)"
proof -
  have "replicate (Suc k) x = replicate n x @ replicate (Suc k - n) x"
    using assms by (simp add: replicate_add [symmetric])
  then have "replicate k x @ x # ps = replicate n x @ (replicate (Suc k - n) x @ ps)"
    by (simp add: replicate_app_Cons_same)
  then show ?thesis
    by (simp only: sublist_append_rightI)
qed

lemma evaluate_Nil: "evaluate hc st [] = st"
  by (simp add: evaluate_def)

lemma evaluate_Cons: "evaluate hc st (p # ps) = evaluate hc (transition hc st p) ps"
  by (simp add: evaluate_def)

lemma evaluate_append: "evaluate hc st (ps @ qs) = evaluate hc (evaluate hc st ps) qs"
  by (simp add: evaluate_def)

lemma healthy_passes:
  "evaluate hc (HEALTHY, k) (replicate j Pass) = (HEALTHY, if j = 0 then k else 0)"
  by (induction j arbitrary: k) (auto simp: evaluate_Nil evaluate_Cons)

lemma not_healthy_fails:
  "s \<noteq> HEALTHY \<Longrightarrow> evaluate hc (s, k) (replicate j Fail) = (s, if j = 0 then k else 0)"
  by (induction j arbitrary: k) (cases s; auto simp: evaluate_Nil evaluate_Cons)+

lemma not_healthy_passes:
  "s \<noteq> HEALTHY \<Longrightarrow> evaluate hc (s, k) (replicate j Pass) =
     (if j = 0 then (s, k)
      else if healthyThresholdCount hc \<le> k + j then (HEALTHY, 0) else (s, k + j))"
proof (induction j arbitrary: k)
  case 0
  then show ?case by (simp add: evaluate_Nil)
next
  case (Suc j)
  have step: "transition hc (s, k) Pass =
      (if healthyThresholdCount hc \<le> Suc k then (HEALTHY, 0) else (s, Suc k))"
    using Suc.prems by (cases s) auto
  show ?case
    using Suc.IH [OF Suc.prems, of "Suc k"] step healthy_passes [of hc 0 j]
    by (auto simp: evaluate_Cons)
qed

lemma healthy_fails:
  "evaluate hc (HEALTHY, k) (replicate j Fail) =
     (if j = 0 then (HEALTHY, k)
      else if unhealthyThresholdCount hc \<le> k + j then (UNHEALTHY, 0) else (HEALTHY, k + j))"
proof (induction j arbitrary: k)
  case 0
  then show ?case by (simp add: evaluate_Nil)
next
  case (Suc j)
  show ?case
    using Suc.IH [of "Suc k"] not_healthy_fails [of UNHEALTHY hc 0 j]
    by (auto simp: evaluate_Cons)
qed

lemma stays_unknown:
  "\<not> sublist (replicate (healthyThresholdCount hc) Pass) (replicate k Pass @ ps) \<Longrightarrow>
   fst (evaluate hc (UNKNOWN, k) ps) = UNKNOWN"
proof (induction ps arbitrary: k)
  case Nil
  then show ?case by (simp add: evaluate_Nil)
next
  case (Cons p ps)
  show ?case
  proof (cases p)
    case Pass
    have short: "\<not> healthyThresholdCount hc \<le> Suc k"
      using Cons.prems Pass run_reaches_threshold [of "healthyThresholdCount hc" k Pass ps]
      by blast
    have "\<not> sublist (replicate (healthyThresholdCount hc) Pass) (replicate (Suc k) Pass @ ps)"
      using Cons.prems Pass by (simp add: replicate_app_Cons_same)
    then have "fst (evaluate hc (UNKNOWN, Suc k) ps) = UNKNOWN"
      by (rule Cons.IH)
    then show ?thesis
      using Pass short by (simp add: evaluate_Cons)
  next
    case Fail
    have "\<not> sublist (replicate (healthyThresholdCount hc) Pass) (replicate 0 Pass @ ps)"
      using Cons.prems sublist_after_probe [of "replicate (healthyThresholdCount hc) Pass" ps k Pass p]
      by auto
    then have "fst (evaluate hc (UNKNOWN, 0) ps) = UNKNOWN"
      by (rule Cons.IH)
    then show ?thesis
      using Fail by (simp add: evaluate_Cons)
  qed
qed

lemma stays_healthy:
  "\<not> sublist (replicate (unhealthyThresholdCount hc) Fail) (replicate k Fail @ ps) \<Longrightarrow>
   fst (evaluate hc (HEALTHY, k) ps) = HEALTHY"
proof (induction ps arbitrary: k)
  case Nil
  then show ?case by (simp add: evaluate_Nil)
next
  case (Cons p ps)
  show ?case
  proof (cases p)
    case Fail
    have short: "\<not> unhealthyThresholdCount hc \<le> Suc k"
      using Cons.prems Fail run_reaches_threshold [of "unhealthyThresholdCount hc" k Fail ps]
      by blast
    have "\<not> sublist (replicate (unhealthyThresholdCount hc) Fail) (replicate (Suc k) Fail @ ps)"
      using Cons.prems Fail by (simp add: replicate_app_Cons_same)
    then have "fst (evaluate hc (HEALTHY, Suc k) ps) = HEALTHY"
      by (rule Cons.IH)
    then show ?thesis
      using Fail short by (simp add: evaluate_Cons)
  next
    case Pass
    have "\<not> sublist (replicate (unhealthyThresholdCount hc) Fail) (replicate 0 Fail @ ps)"
      using Cons.prems sublist_after_probe [of "replicate (unhealthyThresholdCount hc) Fail" ps k Fail p]
      by auto
    then have "fst (evaluate hc (HEALTHY, 0) ps) = HEALTHY"
      by (rule Cons.IH)
    then show ?thesis
      using Pass by (simp add: evaluate_Cons)
  qed
qed

lemma never_unknown_again:
  "fst st \<noteq> UNKNOWN \<Longrightarrow> fst (evaluate hc st ps) \<noteq> UNKNOWN"
proof (induction ps arbitrary: st)
  case Nil
  then show ?case by (simp add: evaluate_Nil)
next
  case (Cons p ps)
  obtain s k where st: "st = (s, k)" by (cases st)
  have "fst (transition hc st p) \<noteq> UNKNOWN"
    using Cons.prems st by (cases s; cases p) auto
  then show ?case
    using Cons.IH by (simp add: evaluate_Cons)
qed

lemma threshold_passes_make_healthy:
  assumes "1 \<le> healthyThresholdCount hc"
  shows "evaluate hc st (replicate (healthyThresholdCount hc) Pass) = (HEALTHY, 0)"
proof -
  obtain s k where st: "st = (s, k)" by (cases st)
  show ?thesis
  proof (cases "s = HEALTHY")
    case True
    then show ?thesis using assms st by (simp add: healthy_passes)
  next
    case False
    then show ?thesis using assms st by (simp add: not_healthy_passes)
  qed
qed

subsection \<open>The eligibility state machine\<close>

text \<open>
  C2. From \<open>UNKNOWN\<close> a target becomes \<open>HEALTHY\<close> exactly after
  \<open>healthyThresholdCount\<close> consecutive passing probes. For every probe sequence: while
  it holds no run of that many passes the target is still \<open>UNKNOWN\<close>, and once it holds
  one the target has left \<open>UNKNOWN\<close>; a run of fewer passes from the start leaves it
  \<open>UNKNOWN\<close> with the run counted; the threshold number of passes, from the start or
  after any history, makes it \<open>HEALTHY\<close>. The machine is the one modelled from the
  spec; the threshold is at least 1.
\<close>

theorem healthy_after_threshold_passes:
  assumes "1 \<le> healthyThresholdCount hc"
  shows "(\<not> sublist (replicate (healthyThresholdCount hc) Pass) ps \<longrightarrow>
            fst (evaluate hc initial ps) = UNKNOWN) \<and>
         (sublist (replicate (healthyThresholdCount hc) Pass) ps \<longrightarrow>
            fst (evaluate hc initial ps) \<noteq> UNKNOWN) \<and>
         (k < healthyThresholdCount hc \<longrightarrow>
            evaluate hc initial (replicate k Pass) = (UNKNOWN, k)) \<and>
         evaluate hc initial (replicate (healthyThresholdCount hc) Pass) = (HEALTHY, 0) \<and>
         evaluate hc initial (ps @ replicate (healthyThresholdCount hc) Pass) = (HEALTHY, 0)"
proof (intro conjI impI)
  assume "\<not> sublist (replicate (healthyThresholdCount hc) Pass) ps"
  then show "fst (evaluate hc initial ps) = UNKNOWN"
    using stays_unknown [of hc 0 ps] by (simp add: initial_def)
next
  assume "sublist (replicate (healthyThresholdCount hc) Pass) ps"
  then obtain xs ys where ps: "ps = xs @ replicate (healthyThresholdCount hc) Pass @ ys"
    by (auto simp: sublist_def)
  have "fst (evaluate hc (evaluate hc initial xs) (replicate (healthyThresholdCount hc) Pass)) \<noteq> UNKNOWN"
    using threshold_passes_make_healthy [OF assms] by simp
  then show "fst (evaluate hc initial ps) \<noteq> UNKNOWN"
    unfolding ps evaluate_append by (rule never_unknown_again)
next
  assume "k < healthyThresholdCount hc"
  then show "evaluate hc initial (replicate k Pass) = (UNKNOWN, k)"
    by (simp add: initial_def not_healthy_passes)
next
  show "evaluate hc initial (replicate (healthyThresholdCount hc) Pass) = (HEALTHY, 0)"
    using assms by (rule threshold_passes_make_healthy)
next
  show "evaluate hc initial (ps @ replicate (healthyThresholdCount hc) Pass) = (HEALTHY, 0)"
    unfolding evaluate_append using assms by (rule threshold_passes_make_healthy)
qed

text \<open>
  C2, at the health check the stack configures (threshold 2): the sequence pass, fail,
  pass holds no two consecutive passes and leaves the target \<open>UNKNOWN\<close>; fail, pass,
  pass, fail holds two and does not.
\<close>

theorem healthy_after_threshold_passes_witness:
  "(let hc = hd (targetGroupChecks (DockerImageDeploymentStack_https ''MenbeeSchedulerStack''
               \<lparr>domainName = ''menbee-scheduler.com'',
                env = Some \<lparr>account = None, region = Some ''ap-northeast-1''\<rparr>\<rparr>))
    in healthyThresholdCount hc = 2 \<and>
       1 \<le> healthyThresholdCount hc \<and>
       \<not> sublist (replicate (healthyThresholdCount hc) Pass) [Pass, Fail, Pass] \<and>
       fst (evaluate hc initial [Pass, Fail, Pass]) = UNKNOWN \<and>
       sublist (replicate (healthyThresholdCount hc) Pass) [Fail, Pass, Pass, Fail] \<and>
       fst (evaluate hc initial [Fail, Pass, Pass, Fail]) \<noteq> UNKNOWN \<and>
       1 < healthyThresholdCount hc \<and>
       evaluate hc initial (replicate 1 Pass) = (UNKNOWN, 1) \<and>
       evaluate hc initial (replicate (healthyThresholdCount hc) Pass) = (HEALTHY, 0) \<and>
       evaluate hc initial ([Pass, Fail, Pass] @ replicate (healthyThresholdCount hc) Pass) = (HEALTHY, 0))"
proof -
  define hc where "hc = hd (targetGroupChecks (DockerImageDeploymentStack_https ''MenbeeSchedulerStack''
               \<lparr>domainName = ''menbee-scheduler.com'',
                env = Some \<lparr>account = None, region = Some ''ap-northeast-1''\<rparr>\<rparr>))"
  have n: "healthyThresholdCount hc = 2"
    by (simp add: hc_def stack_defs read_defs)
  have one: "1 \<le> healthyThresholdCount hc"
    by (simp add: n)
  have short: "\<not> sublist (replicate (healthyThresholdCount hc) Pass) [Pass, Fail, Pass]"
    unfolding n by code_simp
  have long: "sublist (replicate (healthyThresholdCount hc) Pass) [Fail, Pass, Pass, Fail]"
    unfolding n by code_simp
  have k: "1 < healthyThresholdCount hc"
    by (simp add: n)
  show ?thesis
    using healthy_after_threshold_passes [OF one, of "[Pass, Fail, Pass]" 1]
      healthy_after_threshold_passes [OF one, of "[Fail, Pass, Pass, Fail]" 1]
      n one short long k
    unfolding hc_def [symmetric] Let_def by blast
qed

text \<open>
  C3. From \<open>HEALTHY\<close> a target becomes \<open>UNHEALTHY\<close> exactly after
  \<open>unhealthyThresholdCount\<close> consecutive failing probes: a probe sequence with no run
  of that many failures leaves it \<open>HEALTHY\<close>, a shorter run of failures leaves it
  \<open>HEALTHY\<close> with the run counted, and the threshold number of failures, at once or
  after such a sequence, makes it \<open>UNHEALTHY\<close>. From \<open>UNHEALTHY\<close> it is
  \<open>HEALTHY\<close> again after \<open>healthyThresholdCount\<close> consecutive passes and not
  before. The machine is the one modelled from the spec; both thresholds are at least 1.
\<close>

theorem unhealthy_after_threshold_failures:
  assumes "1 \<le> unhealthyThresholdCount hc" and "1 \<le> healthyThresholdCount hc"
  shows "(\<not> sublist (replicate (unhealthyThresholdCount hc) Fail) ps \<longrightarrow>
            fst (evaluate hc (HEALTHY, 0) ps) = HEALTHY) \<and>
         (k < unhealthyThresholdCount hc \<longrightarrow>
            evaluate hc (HEALTHY, 0) (replicate k Fail) = (HEALTHY, k)) \<and>
         evaluate hc (HEALTHY, 0) (replicate (unhealthyThresholdCount hc) Fail) = (UNHEALTHY, 0) \<and>
         (\<not> sublist (replicate (unhealthyThresholdCount hc) Fail) ps \<longrightarrow>
            evaluate hc (HEALTHY, 0) (ps @ replicate (unhealthyThresholdCount hc) Fail) = (UNHEALTHY, 0)) \<and>
         (j < healthyThresholdCount hc \<longrightarrow>
            evaluate hc (UNHEALTHY, 0) (replicate j Pass) = (UNHEALTHY, j)) \<and>
         evaluate hc (UNHEALTHY, 0) (replicate (healthyThresholdCount hc) Pass) = (HEALTHY, 0)"
proof (intro conjI impI)
  assume "\<not> sublist (replicate (unhealthyThresholdCount hc) Fail) ps"
  then show "fst (evaluate hc (HEALTHY, 0) ps) = HEALTHY"
    using stays_healthy [of hc 0 ps] by simp
next
  assume "k < unhealthyThresholdCount hc"
  then show "evaluate hc (HEALTHY, 0) (replicate k Fail) = (HEALTHY, k)"
    by (simp add: healthy_fails)
next
  show "evaluate hc (HEALTHY, 0) (replicate (unhealthyThresholdCount hc) Fail) = (UNHEALTHY, 0)"
    using assms(1) by (simp add: healthy_fails)
next
  assume "\<not> sublist (replicate (unhealthyThresholdCount hc) Fail) ps"
  then have "fst (evaluate hc (HEALTHY, 0) ps) = HEALTHY"
    using stays_healthy [of hc 0 ps] by simp
  then obtain c where "evaluate hc (HEALTHY, 0) ps = (HEALTHY, c)"
    by (cases "evaluate hc (HEALTHY, 0) ps") simp
  then show "evaluate hc (HEALTHY, 0) (ps @ replicate (unhealthyThresholdCount hc) Fail) = (UNHEALTHY, 0)"
    using assms(1) by (simp add: evaluate_append healthy_fails)
next
  assume "j < healthyThresholdCount hc"
  then show "evaluate hc (UNHEALTHY, 0) (replicate j Pass) = (UNHEALTHY, j)"
    by (simp add: not_healthy_passes)
next
  show "evaluate hc (UNHEALTHY, 0) (replicate (healthyThresholdCount hc) Pass) = (HEALTHY, 0)"
    using assms(2) by (rule threshold_passes_make_healthy)
qed

text \<open>
  C3, at the health check the stack configures (thresholds 10 and 2).
\<close>

theorem unhealthy_after_threshold_failures_witness:
  "(let hc = hd (targetGroupChecks (DockerImageDeploymentStack_https ''MenbeeSchedulerStack''
               \<lparr>domainName = ''menbee-scheduler.com'',
                env = Some \<lparr>account = None, region = Some ''ap-northeast-1''\<rparr>\<rparr>))
    in unhealthyThresholdCount hc = 10 \<and>
       1 \<le> unhealthyThresholdCount hc \<and>
       1 \<le> healthyThresholdCount hc \<and>
       \<not> sublist (replicate (unhealthyThresholdCount hc) Fail) [Fail, Fail, Pass, Fail] \<and>
       fst (evaluate hc (HEALTHY, 0) [Fail, Fail, Pass, Fail]) = HEALTHY \<and>
       9 < unhealthyThresholdCount hc \<and>
       evaluate hc (HEALTHY, 0) (replicate 9 Fail) = (HEALTHY, 9) \<and>
       evaluate hc (HEALTHY, 0) (replicate (unhealthyThresholdCount hc) Fail) = (UNHEALTHY, 0) \<and>
       evaluate hc (HEALTHY, 0) ([Fail, Fail, Pass, Fail] @ replicate (unhealthyThresholdCount hc) Fail) =
         (UNHEALTHY, 0) \<and>
       1 < healthyThresholdCount hc \<and>
       evaluate hc (UNHEALTHY, 0) (replicate 1 Pass) = (UNHEALTHY, 1) \<and>
       evaluate hc (UNHEALTHY, 0) (replicate (healthyThresholdCount hc) Pass) = (HEALTHY, 0))"
proof -
  define hc where "hc = hd (targetGroupChecks (DockerImageDeploymentStack_https ''MenbeeSchedulerStack''
               \<lparr>domainName = ''menbee-scheduler.com'',
                env = Some \<lparr>account = None, region = Some ''ap-northeast-1''\<rparr>\<rparr>))"
  have m: "unhealthyThresholdCount hc = 10"
    by (simp add: hc_def stack_defs read_defs)
  have n: "healthyThresholdCount hc = 2"
    by (simp add: hc_def stack_defs read_defs)
  have one_m: "1 \<le> unhealthyThresholdCount hc"
    by (simp add: m)
  have one_n: "1 \<le> healthyThresholdCount hc"
    by (simp add: n)
  have short: "\<not> sublist (replicate (unhealthyThresholdCount hc) Fail) [Fail, Fail, Pass, Fail]"
    unfolding m by code_simp
  have k: "9 < unhealthyThresholdCount hc"
    by (simp add: m)
  have j: "1 < healthyThresholdCount hc"
    by (simp add: n)
  show ?thesis
    using unhealthy_after_threshold_failures [OF one_m one_n, of "[Fail, Fail, Pass, Fail]" 9 1]
      m one_m one_n short k j
    unfolding hc_def [symmetric] Let_def by blast
qed

subsection \<open>The health-check blocks of the stack\<close>

text \<open>
  C4. Every health-check block either version of the stack creates, for every construct id
  and every properties object, keeps the invariant of the data model: its timeout is
  strictly less than its interval and its unhealthy threshold is at least 1. Each version
  creates two blocks, the probe of the load balancer's target group (interval 120 s,
  timeout 60 s, threshold 10) and the probe of the container (interval 30 s, timeout 5 s,
  3 retries).
\<close>

theorem health_check_policy_invariant:
  "length (targetGroupChecks (DockerImageDeploymentStack_https cid props)) = 1 \<and>
   length (containerChecks (DockerImageDeploymentStack_https cid props)) = 1 \<and>
   length (targetGroupChecks (DockerImageDeploymentStack_http cid props)) = 1 \<and>
   length (containerChecks (DockerImageDeploymentStack_http cid props)) = 1 \<and>
   healthCheckPolicies (DockerImageDeploymentStack_https cid props) = [(120, 60, 10), (30, 5, 3)] \<and>
   list_all policyInvariant (healthCheckPolicies (DockerImageDeploymentStack_https cid props)) \<and>
   healthCheckPolicies (DockerImageDeploymentStack_http cid props) = [(120, 60, 10), (30, 5, 3)] \<and>
   list_all policyInvariant (healthCheckPolicies (DockerImageDeploymentStack_http cid props))"
  by (simp add: stack_defs read_defs)

text \<open>
  C5. The health check of the target group, in both versions of the stack, is the spec's
  example: path \<^verbatim>\<open>/\<close>, interval 120 seconds, timeout 60 seconds, healthy threshold 2,
  unhealthy threshold 10. Under it, in the machine modelled from the spec, a target that
  starts at \<open>UNKNOWN\<close> is not eligible after one passing probe, nor after two passes
  with a failure between them, and is \<open>HEALTHY\<close> after two consecutive passes.
\<close>

theorem example_policy_eligibility:
  \<open>targetGroupChecks (DockerImageDeploymentStack_https cid props) =
     [\<lparr>path = ''/'', interval = Seconds 120, timeout = Seconds 60, healthyThresholdCount = 2,
       unhealthyThresholdCount = 10, hcPort = ''traffic-port'', hcProtocol = Protocol_HTTP\<rparr>] \<and>
   targetGroupChecks (DockerImageDeploymentStack_http cid props) =
     targetGroupChecks (DockerImageDeploymentStack_https cid props) \<and>
   map (evaluate (hd (targetGroupChecks (DockerImageDeploymentStack_https cid props))) initial)
     [[], [Pass], [Pass, Pass], [Pass, Fail, Pass], [Pass, Fail, Pass, Pass]] =
     [(UNKNOWN, 0), (UNKNOWN, 1), (HEALTHY, 0), (UNKNOWN, 1), (HEALTHY, 0)]\<close>
  by (simp add: stack_defs read_defs evaluate_def initial_def)

text \<open>
  C9. The container-level health check of either version of the stack is, for every
  construction, the one command \<^verbatim>\<open>CMD-SHELL\<close> \<^verbatim>\<open>exit 0\<close>; read as the container
  runtime reads it, that probe passes whatever the state of the application. The only
  other health check of the stack is the HTTP probe of the load balancer's target group.
\<close>

theorem container_probe_always_passes:
  "map command (containerChecks (DockerImageDeploymentStack_https cid props)) =
     [[''CMD-SHELL'', ''exit 0'']] \<and>
   map command (containerChecks (DockerImageDeploymentStack_http cid props)) =
     [[''CMD-SHELL'', ''exit 0'']] \<and>
   map (\<lambda>h. containerProbe (command h) app)
     (containerChecks (DockerImageDeploymentStack_https cid props)) = [Some Pass] \<and>
   map (\<lambda>h. containerProbe (command h) app)
     (containerChecks (DockerImageDeploymentStack_http cid props)) = [Some Pass] \<and>
   map hcProtocol (targetGroupChecks (DockerImageDeploymentStack_https cid props)) = [Protocol_HTTP] \<and>
   map hcProtocol (targetGroupChecks (DockerImageDeploymentStack_http cid props)) = [Protocol_HTTP]"
  by (simp add: stack_defs read_defs shellExitStatus_def)

subsection \<open>Network and secrets\<close>

text \<open>
  C6, amended. The stack admits traffic from any IPv4 address on port 80 or 443 at the
  load balancer (ports 443 and 80 in the HTTPS version, port 80 in the HTTP version), on
  port 22 at the security group of the compute hosts, and on no other port; the listeners
  are on ports 443 and 80, or on port 80. The container is mapped from container port 3000
  to host port 0 (assigned dynamically) in bridge mode, the target group targets the
  service, and the security group of the compute hosts opens TCP 3000 and TCP 32768 to
  65535 to the security group of the load balancer.
\<close>

theorem network_topology_ports:
  "connectionsFrom (albSecurityGroup (DockerImageDeploymentStack_https cid props)) AnyIpv4 =
     [Tcp 443, Tcp 80] \<and>
   connectionsFrom (albSecurityGroup (DockerImageDeploymentStack_http cid props)) AnyIpv4 = [Tcp 80] \<and>
   connectionsFrom (ec2SecurityGroup (DockerImageDeploymentStack_https cid props)) AnyIpv4 = [Tcp 22] \<and>
   connectionsFrom (ec2SecurityGroup (DockerImageDeploymentStack_http cid props)) AnyIpv4 = [Tcp 22] \<and>
   connectionsFrom (serviceSecurityGroup (DockerImageDeploymentStack_https cid props)) AnyIpv4 = [] \<and>
   connectionsFrom (serviceSecurityGroup (DockerImageDeploymentStack_http cid props)) AnyIpv4 = [] \<and>
   map listenerPort (listeners (DockerImageDeploymentStack_https cid props)) = [443, 80] \<and>
   map listenerPort (listeners (DockerImageDeploymentStack_http cid props)) = [80] \<and>
   admitsPublic (DockerImageDeploymentStack_https cid props) q = (q = 22 \<or> q = 80 \<or> q = 443) \<and>
   admitsPublic (DockerImageDeploymentStack_http cid props) q = (q = 22 \<or> q = 80) \<and>
   map portMappings (stackContainers (DockerImageDeploymentStack_https cid props)) =
     [[\<lparr>containerPort = 3000, hostPort = 0, protocol = TCP\<rparr>]] \<and>
   map portMappings (stackContainers (DockerImageDeploymentStack_http cid props)) =
     [[\<lparr>containerPort = 3000, hostPort = 0, protocol = TCP\<rparr>]] \<and>
   networkMode (taskDefinition (service (DockerImageDeploymentStack_https cid props))) = BRIDGE \<and>
   networkMode (taskDefinition (service (DockerImageDeploymentStack_http cid props))) = BRIDGE \<and>
   map targets (stackTargetGroups (DockerImageDeploymentStack_https cid props)) =
     [[serviceName (service (DockerImageDeploymentStack_https cid props))]] \<and>
   map targets (stackTargetGroups (DockerImageDeploymentStack_http cid props)) =
     [[serviceName (service (DockerImageDeploymentStack_http cid props))]] \<and>
   connectionsFrom (ec2SecurityGroup (DockerImageDeploymentStack_https cid props))
     (SecurityGroupPeer (albSecurityGroupId (alb (DockerImageDeploymentStack_https cid props)))) =
     [Tcp 3000, TcpRange 32768 65535] \<and>
   connectionsFrom (ec2SecurityGroup (DockerImageDeploymentStack_http cid props))
     (SecurityGroupPeer (albSecurityGroupId (alb (DockerImageDeploymentStack_http cid props)))) =
     [Tcp 3000, TcpRange 32768 65535]"
  by (auto simp add: stack_defs read_defs)

text \<open>
  C6 as stated fails: the stack as the entry point builds it admits traffic from any
  IPv4 address on port 22, which is neither 80 nor 443.
\<close>

theorem only_http_ports_counterexample:
  "admitsPublic (DockerImageDeploymentStack_https ''MenbeeSchedulerStack''
      \<lparr>domainName = ''menbee-scheduler.com'',
       env = Some \<lparr>account = None, region = Some ''ap-northeast-1''\<rparr>\<rparr>) 22 \<and>
   (22::nat) \<notin> {80, 443}"
  by (simp add: stack_defs read_defs)

text \<open>
  C7, amended. In the HTTPS version the container receives exactly six secret-backed
  environment variables (\<^verbatim>\<open>AUTH_SECRET\<close>, \<^verbatim>\<open>NEXTAUTH_URL\<close>, \<^verbatim>\<open>AUTH_GOOGLE_ID\<close>,
  \<^verbatim>\<open>AUTH_GOOGLE_SECRET\<close>, \<^verbatim>\<open>DATABASE_URL\<close>, \<^verbatim>\<open>AUTH_TRUST_HOST\<close>), each a reference
  to the field of its own name in the secret named \<^verbatim>\<open>nextjs-app/env\<close>; none of the six
  names is also a plain environment variable, so the stack holds key names and no values.
  The HTTP version declares no secret-backed variable and no secret.
\<close>

theorem secret_references:
  "secretEntries (DockerImageDeploymentStack_https cid props) =
     map (\<lambda>key. (key, FromSecretsManager (FromSecretNameV2 ''AppSecrets'' ''nextjs-app/env'') key))
       [''AUTH_SECRET'', ''NEXTAUTH_URL'', ''AUTH_GOOGLE_ID'', ''AUTH_GOOGLE_SECRET'',
        ''DATABASE_URL'', ''AUTH_TRUST_HOST''] \<and>
   length (secretEntries (DockerImageDeploymentStack_https cid props)) = 6 \<and>
   distinct (map fst (secretEntries (DockerImageDeploymentStack_https cid props))) \<and>
   set (map fst (secretEntries (DockerImageDeploymentStack_https cid props))) \<inter>
     set (map fst (concat (map environment
       (stackContainers (DockerImageDeploymentStack_https cid props))))) = {} \<and>
   appSecrets (DockerImageDeploymentStack_https cid props) =
     Some (FromSecretNameV2 ''AppSecrets'' ''nextjs-app/env'') \<and>
   secretEntries (DockerImageDeploymentStack_http cid props) = [] \<and>
   appSecrets (DockerImageDeploymentStack_http cid props) = None"
  by (simp add: stack_defs read_defs)

text \<open>
  C7 as stated fails: the container of the HTTP version, as the entry point builds it,
  does not receive six secret-backed variables.
\<close>

theorem six_secrets_counterexample:
  "length (secretEntries (DockerImageDeploymentStack_http ''MenbeeSchedulerStack''
      \<lparr>domainName = ''menbee-scheduler.com'',
       env = Some \<lparr>account = None, region = Some ''ap-northeast-1''\<rparr>\<rparr>)) \<noteq> 6"
  by (simp add: stack_defs read_defs)

text \<open>
  C8. For every construction of either version of the stack, the security group of the
  compute hosts has the ingress rule that admits TCP port 22 from any IPv4 address, the
  auto scaling group runs its hosts under that security group, and the first three
  bootstrap commands of the hosts set a password written in the source for
  \<^verbatim>\<open>ec2-user\<close>, switch \<^verbatim>\<open>PasswordAuthentication\<close> to yes in the SSH daemon's
  configuration and restart the daemon.
\<close>

theorem ssh_exposed_on_hosts:
  \<open>\<lparr>peer = AnyIpv4, connection = Tcp 22, description = ''Allow SSH access''\<rparr>
     \<in> set (ingressRules (ec2SecurityGroup (DockerImageDeploymentStack_https cid props))) \<and>
   \<lparr>peer = AnyIpv4, connection = Tcp 22, description = ''Allow SSH access''\<rparr>
     \<in> set (ingressRules (ec2SecurityGroup (DockerImageDeploymentStack_http cid props))) \<and>
   admitsPublic (DockerImageDeploymentStack_https cid props) 22 \<and>
   admitsPublic (DockerImageDeploymentStack_http cid props) 22 \<and>
   securityGroup (autoScalingGroup (DockerImageDeploymentStack_https cid props)) =
     sgId (ec2SecurityGroup (DockerImageDeploymentStack_https cid props)) \<and>
   securityGroup (autoScalingGroup (DockerImageDeploymentStack_http cid props)) =
     sgId (ec2SecurityGroup (DockerImageDeploymentStack_http cid props)) \<and>
   take 3 (asgUserData (autoScalingGroup (DockerImageDeploymentStack_https cid props))) =
     [''echo "ec2-user:your-password-here" | chpasswd'',
      ''sed -i "s/PasswordAuthentication no/PasswordAuthentication yes/g" /etc/ssh/sshd_config'',
      ''systemctl restart sshd''] \<and>
   asgUserData (autoScalingGroup (DockerImageDeploymentStack_http cid props)) =
     asgUserData (autoScalingGroup (DockerImageDeploymentStack_https cid props))\<close>
  by (simp add: stack_defs read_defs)

subsection \<open>The entry point\<close>

text \<open>
  C10. The entry point instantiates exactly one stack, with the construct id
  \<^verbatim>\<open>MenbeeSchedulerStack\<close> and the domain name \<^verbatim>\<open>menbee-scheduler.com\<close>, whichever
  stack class it imports. Its region is \<^verbatim>\<open>ap-northeast-1\<close> when the environment variable
  \<^verbatim>\<open>CDK_DEFAULT_REGION\<close> is unset or empty, and the value of the variable, unchanged,
  otherwise.
\<close>

theorem cdk_single_stack_region:
  "length (cdk ctor process_env) = 1 \<and>
   map fst (cdk Pair process_env) = [''MenbeeSchedulerStack''] \<and>
   map (domainName \<circ> snd) (cdk Pair process_env) = [''menbee-scheduler.com''] \<and>
   map stackId (cdk DockerImageDeploymentStack_https process_env) = [''MenbeeSchedulerStack''] \<and>
   map stackId (cdk DockerImageDeploymentStack_http process_env) = [''MenbeeSchedulerStack''] \<and>
   map certificate (cdk DockerImageDeploymentStack_https process_env) = [Some ''menbee-scheduler.com''] \<and>
   map stackEnv (cdk DockerImageDeploymentStack_https process_env) = map (env \<circ> snd) (cdk Pair process_env) \<and>
   map stackEnv (cdk DockerImageDeploymentStack_http process_env) = map (env \<circ> snd) (cdk Pair process_env) \<and>
   (process_env ''CDK_DEFAULT_REGION'' = None \<or> process_env ''CDK_DEFAULT_REGION'' = Some [] \<longrightarrow>
      map (env \<circ> snd) (cdk Pair process_env) =
        [Some \<lparr>account = process_env ''CDK_DEFAULT_ACCOUNT'', region = Some ''ap-northeast-1''\<rparr>]) \<and>
   (process_env ''CDK_DEFAULT_REGION'' = Some r \<and> r \<noteq> [] \<longrightarrow>
      map (env \<circ> snd) (cdk Pair process_env) =
        [Some \<lparr>account = process_env ''CDK_DEFAULT_ACCOUNT'', region = Some r\<rparr>])"
  by (auto simp add: cdk_def or_default_def stack_defs)

text \<open>
  C10, with the variable unset, set to the empty string, and set to \<^verbatim>\<open>us-east-1\<close>.
\<close>

theorem cdk_single_stack_region_witness:
  "(Map.empty :: string \<Rightarrow> string option) ''CDK_DEFAULT_REGION'' = None \<and>
   map (env \<circ> snd) (cdk Pair Map.empty) =
     [Some \<lparr>account = None, region = Some ''ap-northeast-1''\<rparr>] \<and>
   [''CDK_DEFAULT_REGION'' \<mapsto> ''''] ''CDK_DEFAULT_REGION'' = Some [] \<and>
   map (env \<circ> snd) (cdk Pair [''CDK_DEFAULT_REGION'' \<mapsto> '''']) =
     [Some \<lparr>account = None, region = Some ''ap-northeast-1''\<rparr>] \<and>
   [''CDK_DEFAULT_REGION'' \<mapsto> ''us-east-1''] ''CDK_DEFAULT_REGION'' = Some ''us-east-1'' \<and>
   ''us-east-1'' \<noteq> [] \<and>
   map (env \<circ> snd) (cdk Pair [''CDK_DEFAULT_REGION'' \<mapsto> ''us-east-1'']) =
     [Some \<lparr>account = None, region = Some ''us-east-1''\<rparr>]"
  using cdk_single_stack_region [of Pair Map.empty]
    cdk_single_stack_region [of Pair "[''CDK_DEFAULT_REGION'' \<mapsto> '''']"]
    cdk_single_stack_region [of Pair "[''CDK_DEFAULT_REGION'' \<mapsto> ''us-east-1'']" "''us-east-1''"]
  by simp

end
